theory Spec2Isabelle
  imports Main
begin

section \<open>Values, events and errors\<close>

text \<open>
  The portal keeps its session in six reactive cells (\<^verbatim>\<open>useSession\<close>), a persisted
  store \<^verbatim>\<open>secureDB\<close> (tokens and an audit log) and a JWT codec. Time is the number of
  milliseconds since the epoch, as \<^verbatim>\<open>Date.now()\<close> gives it; an ISO date string is
  identified with the instant it denotes.
\<close>

datatype jsval = Str string | Num int | Bool bool | IsoTime int

datatype event_kind = SESSION_START | SESSION_END | UNAUTHORIZED_ACCESS | ROUTE_ACCESS

record event =
  kind :: event_kind
  actor :: string
  metadata :: "(string \<times> jsval) list"
  loggedAt :: int

datatype store_op = GetValidToken | StoreToken | ClearExpiredTokens | LogEvent

text \<open>
  An awaited store call that rejects is \<open>StoreUnavailable\<close>; \<open>AccessDenied\<close> is the
  \<^verbatim>\<open>new Error('Acesso nao autorizado')\<close> thrown by \<^verbatim>\<open>checkRouteAccess\<close>.
\<close>

datatype error = StoreUnavailable store_op | AccessDenied

record userData =
  id_user :: "string option"
  username :: string
  displayName :: string

record payload =
  userId :: string
  username_claim :: string
  credentialId :: string
  timestamp :: int

text \<open>
  \<^verbatim>\<open>utils/jwt\<close> is not among the sources: its two functions are parameters of the
  model. \<^verbatim>\<open>validateJWT(token)\<close> reads the clock, so the parameter takes the current time.
\<close>

record jwt =
  validateJWT :: "int \<Rightarrow> string \<Rightarrow> bool"
  generateJWT :: "payload \<Rightarrow> string"

section \<open>State\<close>

record session =
  isAuthenticated :: bool
  sessionUser :: "userData option"
  sessionStart :: "int option"
  sessionTimeout :: int
  inactivityTimer :: "int option"
  sessionToken :: "string option"

text \<open>
  \<open>inactivityTimer\<close> holds the pending \<^verbatim>\<open>setTimeout\<close>: \<open>None\<close> for \<^verbatim>\<open>null\<close>, otherwise
  the instant at which the callback \<^verbatim>\<open>endSession('inactivity_timeout')\<close> is due (the
  time of the call plus the delay that \<^verbatim>\<open>setTimeout\<close> makes of
  \<^verbatim>\<open>sessionTimeout.value * 1000\<close>). Setting a new timer clears the previous one, so the
  single cell is the only pending deadline.
\<close>

record secureDB =
  tokenSlot :: "(string \<times> int) option"
  auditLog :: "event list"

text \<open>
  The world around one \<^verbatim>\<open>useSession()\<close> instance: its cells, the store, the clock,
  the store calls that currently fail, and \<^verbatim>\<open>navigator.userAgent\<close>.
\<close>

record world =
  sess :: session
  db :: secureDB
  now :: int
  failing :: "store_op list"
  userAgent :: string

definition initialSession :: session where
  "initialSession =
     \<lparr>isAuthenticated = False, sessionUser = None, sessionStart = None,
      sessionTimeout = 900, inactivityTimer = None, sessionToken = None\<rparr>"

section \<open>The session store\<close>

text \<open>A store call fails while it is listed in \<open>failing\<close>.\<close>

definition unavailable :: "store_op \<Rightarrow> world \<Rightarrow> bool" where
  "unavailable call w = (call \<in> set (failing w))"

text \<open>
  Modelled from the spec: \<^verbatim>\<open>utils/indexeddb\<close> (the object \<^verbatim>\<open>secureDB\<close>) is missing from
  the sources. Section 4.2 of the specification gives its contract: \<^verbatim>\<open>getValidToken\<close>
  returns a token only if one is present and not expired and otherwise purges it,
  \<^verbatim>\<open>storeToken(token, ttlSeconds)\<close> persists a token with a time to live,
  \<^verbatim>\<open>clearExpiredTokens\<close> sweeps expired tokens, \<^verbatim>\<open>logEvent\<close> appends to the event log.
  A persistence failure of a token call (\<^verbatim>\<open>StoreUnavailable\<close>, section 7) is the
  rejection of the awaited call, which leaves the store as it was.
\<close>

definition getValidToken :: "world \<Rightarrow> (error + string option) \<times> world" where
  "getValidToken w =
     (if unavailable GetValidToken w then (Inl (StoreUnavailable GetValidToken), w)
      else case tokenSlot (db w) of
        None \<Rightarrow> (Inr None, w)
      | Some (t, expiresAt) \<Rightarrow>
          if now w < expiresAt then (Inr (Some t), w)
          else (Inr None, w\<lparr>db := (db w)\<lparr>tokenSlot := None\<rparr>\<rparr>))"

text \<open>
  Modelled from the spec: \<^verbatim>\<open>secureDB.storeToken(token, ttlSeconds)\<close> of the missing
  \<^verbatim>\<open>utils/indexeddb\<close>; the token expires \<open>ttl\<close> seconds after it is stored.
\<close>

definition storeToken :: "string \<Rightarrow> int \<Rightarrow> world \<Rightarrow> (error + unit) \<times> world" where
  "storeToken t ttl w =
     (if unavailable StoreToken w then (Inl (StoreUnavailable StoreToken), w)
      else (Inr (), w\<lparr>db := (db w)\<lparr>tokenSlot := Some (t, now w + ttl * 1000)\<rparr>\<rparr>))"

text \<open>
  Modelled from the spec: \<^verbatim>\<open>secureDB.clearExpiredTokens()\<close> of the missing
  \<^verbatim>\<open>utils/indexeddb\<close>; it removes the stored token if it has expired and nothing else.
\<close>

definition clearExpiredTokens :: "world \<Rightarrow> (error + unit) \<times> world" where
  "clearExpiredTokens w =
     (if unavailable ClearExpiredTokens w then (Inl (StoreUnavailable ClearExpiredTokens), w)
      else case tokenSlot (db w) of
        None \<Rightarrow> (Inr (), w)
      | Some (t, expiresAt) \<Rightarrow>
          if now w < expiresAt then (Inr (), w)
          else (Inr (), w\<lparr>db := (db w)\<lparr>tokenSlot := None\<rparr>\<rparr>))"

text \<open>
  Modelled from the spec: \<^verbatim>\<open>secureDB.logEvent(kind, actor, metadata)\<close> of the missing
  \<^verbatim>\<open>utils/indexeddb\<close>; the log is append-only and each entry is stamped with the time
  of the call. The call is fire-and-forget (sections 4.2, 6 and 7): a failed write is
  swallowed, the event is dropped and the caller goes on, so the call never rejects.
\<close>

definition logEvent ::
  "event_kind \<Rightarrow> string \<Rightarrow> (string \<times> jsval) list \<Rightarrow> world \<Rightarrow> (error + unit) \<times> world" where
  "logEvent k a m w =
     (if unavailable LogEvent w then (Inr (), w)
      else (Inr (), w\<lparr>db := (db w)\<lparr>auditLog :=
              auditLog (db w) @ [\<lparr>kind = k, actor = a, metadata = m, loggedAt = now w\<rparr>]\<rparr>\<rparr>))"

section \<open>Session manager (\<^verbatim>\<open>composables/useSession.js\<close>)\<close>

text \<open>
  \<^verbatim>\<open>setTimeout\<close> keeps its delay as a 32-bit signed integer of milliseconds: a delay
  above 2147483647 (about 24.8 days) overflows and the callback is due at once, as it
  is for a negative delay.
\<close>

definition setTimeoutDelay :: "int \<Rightarrow> int" where
  "setTimeoutDelay d = (if 0 \<le> d \<and> d \<le> 2147483647 then d else 0)"

definition startInactivityTimer :: "world \<Rightarrow> world" where
  "startInactivityTimer w =
     w\<lparr>sess := (sess w)\<lparr>inactivityTimer :=
          Some (now w + setTimeoutDelay (sessionTimeout (sess w) * 1000))\<rparr>\<rparr>"

definition getSessionDuration :: "world \<Rightarrow> int" where
  "getSessionDuration w =
     (case sessionStart (sess w) of
        None \<Rightarrow> 0
      | Some start \<Rightarrow> (now w - start) div 1000)"

definition initSession :: "jwt \<Rightarrow> world \<Rightarrow> (error + bool) \<times> world" where
  "initSession c w =
     (case getValidToken w of
        (Inl e, w1) \<Rightarrow> (Inl e, w1)
      | (Inr None, w1) \<Rightarrow> (Inr False, w1)
      | (Inr (Some token), w1) \<Rightarrow>
          if token \<noteq> [] \<and> validateJWT c (now w1) token then
            (case logEvent SESSION_START ''system''
                    [(''token'', Str (take 10 token @ ''...''))]
                    (w1\<lparr>sess := (sess w1)\<lparr>sessionToken := Some token,
                                          isAuthenticated := True,
                                          sessionStart := Some (now w1)\<rparr>\<rparr>) of
               (Inl e, w2) \<Rightarrow> (Inl e, w2)
             | (Inr _, w2) \<Rightarrow> (Inr True, startInactivityTimer w2))
          else (Inr False, w1))"

text \<open>
  \<open>anonymousOr\<close> is the expression \<^verbatim>\<open>userData.id || 'anonymous'\<close> and \<open>actorOf\<close> is
  \<^verbatim>\<open>sessionUser.value?.username || 'unknown'\<close>: a missing value and the empty string are
  both falsy.
\<close>

definition anonymousOr :: "string option \<Rightarrow> string" where
  "anonymousOr i = (case i of None \<Rightarrow> ''anonymous'' | Some s \<Rightarrow> if s = [] then ''anonymous'' else s)"

definition startSession :: "jwt \<Rightarrow> userData \<Rightarrow> string \<Rightarrow> world \<Rightarrow> (error + string) \<times> world" where
  "startSession c userData cred w =
     (let token = generateJWT c
            \<lparr>userId = anonymousOr (id_user userData), username_claim = username userData,
             credentialId = cred, timestamp = now w\<rparr>
      in case storeToken token (sessionTimeout (sess w)) w of
           (Inl e, w1) \<Rightarrow> (Inl e, w1)
         | (Inr _, w1) \<Rightarrow>
             (case logEvent SESSION_START (username userData)
                     [(''credentialId'', Str cred), (''userAgent'', Str (userAgent w1))]
                     (w1\<lparr>sess := (sess w1)\<lparr>sessionToken := Some token,
                                           isAuthenticated := True,
                                           sessionUser := Some userData,
                                           sessionStart := Some (now w1)\<rparr>\<rparr>) of
                (Inl e, w2) \<Rightarrow> (Inl e, w2)
              | (Inr _, w2) \<Rightarrow> (Inr token, startInactivityTimer w2)))"

definition actorOf :: "userData option \<Rightarrow> string" where
  "actorOf u = (case u of None \<Rightarrow> ''unknown''
                | Some d \<Rightarrow> if username d = [] then ''unknown'' else username d)"

text \<open>
  \<open>clearSession\<close> is the synchronous middle of \<open>endSession\<close>: the timer is cancelled and
  the four session cells are reset, with no \<^verbatim>\<open>await\<close> in between. The caller of
  \<open>endSession\<close> passes the reason; the source's default is \<^verbatim>\<open>'user_logout'\<close>.
\<close>

definition clearSession :: "world \<Rightarrow> world" where
  "clearSession w =
     w\<lparr>sess := (sess w)\<lparr>inactivityTimer := None, isAuthenticated := False,
                        sessionUser := None, sessionStart := None, sessionToken := None\<rparr>\<rparr>"

definition endSession :: "string \<Rightarrow> world \<Rightarrow> (error + unit) \<times> world" where
  "endSession reason w =
     (case (if isAuthenticated (sess w)
            then logEvent SESSION_END (actorOf (sessionUser (sess w)))
                   [(''reason'', Str reason), (''duration'', Num (getSessionDuration w))] w
            else (Inr (), w)) of
        (Inl e, w1) \<Rightarrow> (Inl e, w1)
      | (Inr _, w1) \<Rightarrow> clearExpiredTokens (clearSession w1))"

definition resetInactivityTimer :: "world \<Rightarrow> world" where
  "resetInactivityTimer w = (if isAuthenticated (sess w) then startInactivityTimer w else w)"

definition updateSessionTimeout :: "int \<Rightarrow> world \<Rightarrow> world" where
  "updateSessionTimeout newTimeout w =
     (let w1 = w\<lparr>sess := (sess w)\<lparr>sessionTimeout := newTimeout\<rparr>\<rparr>
      in if isAuthenticated (sess w1) then startInactivityTimer w1 else w1)"

text \<open>
  Numbers in template literals: decimal digits, a minus sign for a negative number.
  \<open>jsRem\<close> is the remainder operator \<^verbatim>\<open>%\<close>, whose result has the sign of the dividend.
\<close>

definition digit :: "nat \<Rightarrow> char" where
  "digit n = ''0123456789'' ! n"

function showNat :: "nat \<Rightarrow> string" where
  "showNat n = (if n < 10 then [digit n] else showNat (n div 10) @ [digit (n mod 10)])"
  by pat_completeness auto
termination
  by (relation "measure (\<lambda>n. n)") auto

definition showInt :: "int \<Rightarrow> string" where
  "showInt i = (if i < 0 then ''-'' @ showNat (nat (- i)) else showNat (nat i))"

definition jsRem :: "int \<Rightarrow> int \<Rightarrow> int" where
  "jsRem a b = (if a < 0 then - ((- a) mod b) else a mod b)"

definition formatSessionDuration :: "world \<Rightarrow> string" where
  "formatSessionDuration w =
     (let duration = getSessionDuration w;
          hours = duration div 3600;
          minutes = jsRem duration 3600 div 60;
          seconds = jsRem duration 60
      in if hours > 0 then showInt hours @ ''h '' @ showInt minutes @ ''m '' @ showInt seconds @ ''s''
         else if minutes > 0 then showInt minutes @ ''m '' @ showInt seconds @ ''s''
         else showInt seconds @ ''s'')"

record sessionInfo_view =
  info_isAuthenticated :: bool
  info_user :: "userData option"
  startTime :: "int option"
  duration :: int
  formattedDuration :: string
  timeout :: int

text \<open>
  \<open>sessionInfo\<close> is the getter handed to \<^verbatim>\<open>computed\<close>: the view that an evaluation at
  the current instant produces. Vue keeps the last evaluated view until one of the cells
  the getter reads is written with a new value, so a read of the code may return an
  older evaluation of this getter; the model has no such cache.
\<close>

definition sessionInfo :: "world \<Rightarrow> sessionInfo_view" where
  "sessionInfo w =
     \<lparr>info_isAuthenticated = isAuthenticated (sess w),
      info_user = sessionUser (sess w),
      startTime = sessionStart (sess w),
      duration = getSessionDuration w,
      formattedDuration = formatSessionDuration w,
      timeout = sessionTimeout (sess w)\<rparr>"

subsection \<open>Sequences of calls\<close>

text \<open>
  A caller's sequence of session operations. Between two calls the clock may advance and
  the set of failing store calls may change; a rejected call leaves the state its
  body had reached.
\<close>

datatype call = InitSession | StartSession userData string | EndSession string

fun perform :: "jwt \<Rightarrow> call \<Rightarrow> world \<Rightarrow> world" where
  "perform c InitSession w = snd (initSession c w)"
| "perform c (StartSession u cred) w = snd (startSession c u cred w)"
| "perform c (EndSession reason) w = snd (endSession reason w)"

fun run :: "jwt \<Rightarrow> world \<Rightarrow> (nat \<times> store_op list \<times> call) list \<Rightarrow> world" where
  "run c w [] = w"
| "run c w ((dt, fs, k) # rest) =
     run c (perform c k (w\<lparr>now := now w + int dt, failing := fs\<rparr>)) rest"

section \<open>Route guards\<close>

datatype decision = ALLOW | REDIRECT string

subsection \<open>\<^verbatim>\<open>useRouteGuard\<close> (\<^verbatim>\<open>composables/useSession.js\<close>)\<close>

record routeRecord =
  meta_requiresAuth :: bool

record route =
  path :: string
  matched :: "routeRecord list"

definition useRouteGuard_beforeEach :: "jwt \<Rightarrow> route \<Rightarrow> world \<Rightarrow> (error + decision) \<times> world" where
  "useRouteGuard_beforeEach c to w =
     (let requiresAuth = (\<exists>r \<in> set (matched to). meta_requiresAuth r)
      in if requiresAuth \<and> \<not> isAuthenticated (sess w) then
           (case initSession c w of
              (Inl e, w1) \<Rightarrow> (Inl e, w1)
            | (Inr hasValidSession, w1) \<Rightarrow>
                if \<not> hasValidSession then (Inr (REDIRECT ''/auth''), w1)
                else (Inr ALLOW, w1))
         else (Inr ALLOW, w))"

subsection \<open>\<^verbatim>\<open>AuthMiddleware\<close> (\<^verbatim>\<open>middleware/auth.js\<close>)\<close>

datatype RouteType = PUBLIC | PROTECTED | AUTH_ONLY

definition routeConfig :: "string \<rightharpoonup> RouteType" where
  "routeConfig = map_of
     [(''/'', PUBLIC), (''/auth'', AUTH_ONLY), (''/dashboard'', PROTECTED),
      (''/security'', PROTECTED), (''/profile'', PROTECTED)]"

text \<open>
  \<open>routeTypeOf\<close> is \<^verbatim>\<open>routeConfig[path] || RouteType.PUBLIC\<close>. The router hands over paths
  that start with a slash, so a path never names a property inherited by the object
  literal.
\<close>

definition routeTypeOf :: "string \<Rightarrow> RouteType" where
  "routeTypeOf p = (case routeConfig p of None \<Rightarrow> PUBLIC | Some t \<Rightarrow> t)"

definition requiresAuthentication :: "string \<Rightarrow> bool" where
  "requiresAuthentication p = (routeTypeOf p = PROTECTED)"

definition isAuthenticationRoute :: "string \<Rightarrow> bool" where
  "isAuthenticationRoute p = (routeTypeOf p = AUTH_ONLY)"

text \<open>The \<^verbatim>\<open>try\<close>/\<^verbatim>\<open>catch\<close> turns every rejection into \<^verbatim>\<open>false\<close>.\<close>

definition checkAuthentication :: "jwt \<Rightarrow> world \<Rightarrow> bool \<times> world" where
  "checkAuthentication c w =
     (case getValidToken w of
        (Inl e, w1) \<Rightarrow> (False, w1)
      | (Inr None, w1) \<Rightarrow> (False, w1)
      | (Inr (Some token), w1) \<Rightarrow>
          if token = [] then (False, w1)
          else if \<not> validateJWT c (now w1) token then (False, snd (clearExpiredTokens w1))
          else (True, w1))"

definition logRouteAccess :: "string \<Rightarrow> bool \<Rightarrow> world \<Rightarrow> world" where
  "logRouteAccess p authenticated w =
     snd (logEvent ROUTE_ACCESS (if authenticated then ''authenticated'' else ''anonymous'')
            [(''path'', Str p), (''authenticated'', Bool authenticated),
             (''timestamp'', IsoTime (now w))] w)"

definition authMiddleware_beforeEach :: "jwt \<Rightarrow> string \<Rightarrow> world \<Rightarrow> (error + decision) \<times> world" where
  "authMiddleware_beforeEach c p w =
     (let requiresAuth = requiresAuthentication p;
          isAuthRoute = isAuthenticationRoute p
      in case checkAuthentication c w of
        (authenticated, w1) \<Rightarrow>
          if requiresAuth \<and> \<not> authenticated then
            (case logEvent UNAUTHORIZED_ACCESS ''system''
                    [(''path'', Str p), (''userAgent'', Str (userAgent w1))] w1 of
               (Inl e, w2) \<Rightarrow> (Inl e, w2)
             | (Inr _, w2) \<Rightarrow> (Inr (REDIRECT ''/auth''), w2))
          else if isAuthRoute \<and> authenticated then (Inr (REDIRECT ''/dashboard''), w1)
          else (Inr ALLOW, logRouteAccess p authenticated w1))"

subsection \<open>\<^verbatim>\<open>useRouteProtection\<close>\<close>

definition checkRouteAccess :: "jwt \<Rightarrow> string \<Rightarrow> world \<Rightarrow> (error + bool) \<times> world" where
  "checkRouteAccess c p w =
     (if routeConfig p = Some PROTECTED then
        (case getValidToken w of
           (Inl e, w1) \<Rightarrow> (Inl e, w1)
         | (Inr tok, w1) \<Rightarrow>
             (let isValid = (case tok of None \<Rightarrow> False
                             | Some token \<Rightarrow> token \<noteq> [] \<and> validateJWT c (now w1) token)
              in if \<not> isValid then (Inl AccessDenied, w1) else (Inr True, w1)))
      else (Inr True, w))"

text \<open>The number of logged events of one kind.\<close>

definition countKind :: "event_kind \<Rightarrow> world \<Rightarrow> nat" where
  "countKind k w = length (filter (\<lambda>e. kind e = k) (auditLog (db w)))"

section \<open>Notions used by the properties\<close>

text \<open>
  The token of a session is vouched for when it was accepted by \<open>validateJWT\<close> at the
  instant recorded in \<open>sessionStart\<close> (the check of \<open>initSession\<close>), or was issued by
  \<open>generateJWT\<close> at that instant (\<open>startSession\<close>, which checks nothing).
\<close>

definition tokenVouched :: "jwt \<Rightarrow> session \<Rightarrow> bool" where
  "tokenVouched c s =
     (\<exists>t st. sessionToken s = Some t \<and> sessionStart s = Some st \<and>
        (validateJWT c st t \<or> (\<exists>p. timestamp p = st \<and> t = generateJWT c p)))"

definition sessionInv :: "jwt \<Rightarrow> session \<Rightarrow> bool" where
  "sessionInv c s =
     ((isAuthenticated s \<longleftrightarrow> sessionToken s \<noteq> None) \<and>
      (sessionUser s \<noteq> None \<longrightarrow> isAuthenticated s) \<and>
      (isAuthenticated s \<longrightarrow> tokenVouched c s))"

text \<open>
  A valid token is available when the store holds a token that has not expired, is not
  the empty string and is accepted by the codec now.
\<close>

definition validTokenAvailable :: "jwt \<Rightarrow> world \<Rightarrow> bool" where
  "validTokenAvailable c w =
     (case tokenSlot (db w) of
        None \<Rightarrow> False
      | Some (t, expiresAt) \<Rightarrow> now w < expiresAt \<and> t \<noteq> [] \<and> validateJWT c (now w) t)"

subsection \<open>A concrete codec, user and worlds\<close>

definition exampleJwt :: jwt where
  "exampleJwt =
     \<lparr>validateJWT = (\<lambda>t tok. take 4 tok = ''jwt:''),
      generateJWT = (\<lambda>p. ''jwt:'' @ username_claim p)\<rparr>"

definition exampleUser :: userData where
  "exampleUser = \<lparr>id_user = Some ''u1'', username = ''alice'', displayName = ''Alice''\<rparr>"

definition emptyWorld :: world where
  "emptyWorld =
     \<lparr>sess = initialSession, db = \<lparr>tokenSlot = None, auditLog = []\<rparr>, now = 0,
      failing = [], userAgent = ''Mozilla/5.0''\<rparr>"

definition resumableWorld :: world where
  "resumableWorld = emptyWorld\<lparr>db := \<lparr>tokenSlot = Some (''jwt:alice'', 900000), auditLog = []\<rparr>\<rparr>"

definition loggedIn :: world where
  "loggedIn = snd (startSession exampleJwt exampleUser ''cred1'' emptyWorld)"

definition dashboardRoute :: route where
  "dashboardRoute = \<lparr>path = ''/dashboard'', matched = [\<lparr>meta_requiresAuth = True\<rparr>]\<rparr>"

definition activeLate :: world where
  "activeLate = (resetInactivityTimer (loggedIn\<lparr>now := 600000\<rparr>))\<lparr>now := 900000\<rparr>"

section \<open>Auxiliary facts\<close>

lemmas store_defs =
  unavailable_def getValidToken_def storeToken_def clearExpiredTokens_def logEvent_def

lemmas session_defs =
  initSession_def startSession_def endSession_def clearSession_def startInactivityTimer_def
  setTimeoutDelay_def getSessionDuration_def anonymousOr_def actorOf_def resetInactivityTimer_def
  updateSessionTimeout_def

lemmas guard_defs =
  useRouteGuard_beforeEach_def authMiddleware_beforeEach_def checkAuthentication_def
  logRouteAccess_def requiresAuthentication_def isAuthenticationRoute_def routeTypeOf_def
  routeConfig_def checkRouteAccess_def countKind_def

lemmas example_defs =
  exampleJwt_def exampleUser_def emptyWorld_def resumableWorld_def loggedIn_def
  dashboardRoute_def initialSession_def

lemma checkAuthentication_frame:
  "sess (snd (checkAuthentication c w)) = sess w"
  "auditLog (db (snd (checkAuthentication c w))) = auditLog (db w)"
  "now (snd (checkAuthentication c w)) = now w"
  "failing (snd (checkAuthentication c w)) = failing w"
  "userAgent (snd (checkAuthentication c w)) = userAgent w"
  by (auto simp: checkAuthentication_def store_defs
      split: option.splits prod.splits sum.splits if_splits)

lemma tokenVouched_issued:
  "sessionToken s = Some (generateJWT c p) \<Longrightarrow> sessionStart s = Some (timestamp p) \<Longrightarrow>
   tokenVouched c s"
  unfolding tokenVouched_def by blast

lemma initSession_inv:
  "sessionInv c (sess w) \<Longrightarrow> sessionInv c (sess (snd (initSession c w)))"
  by (auto simp: initSession_def store_defs startInactivityTimer_def sessionInv_def
      tokenVouched_def split: option.splits prod.splits sum.splits if_splits)

lemma startSession_inv:
  "sessionInv c (sess w) \<Longrightarrow> sessionInv c (sess (snd (startSession c u cred w)))"
  by (auto simp: startSession_def store_defs startInactivityTimer_def sessionInv_def Let_def
      intro!: tokenVouched_issued split: option.splits prod.splits sum.splits if_splits)

lemma endSession_inv:
  "sessionInv c (sess w) \<Longrightarrow> sessionInv c (sess (snd (endSession r w)))"
  by (auto simp: endSession_def store_defs clearSession_def sessionInv_def tokenVouched_def
      split: option.splits prod.splits sum.splits if_splits)

lemma perform_inv: "sessionInv c (sess w) \<Longrightarrow> sessionInv c (sess (perform c k w))"
  by (cases k) (simp_all add: initSession_inv startSession_inv endSession_inv)

lemma run_inv: "sessionInv c (sess w) \<Longrightarrow> sessionInv c (sess (run c w calls))"
proof (induction calls arbitrary: w)
  case Nil
  then show ?case by simp
next
  case (Cons a calls)
  obtain dt fs k where a: "a = (dt, fs, k)" by (cases a)
  have "sessionInv c (sess (w\<lparr>now := now w + int dt, failing := fs\<rparr>))"
    using Cons.prems by simp
  then have "sessionInv c (sess (perform c k (w\<lparr>now := now w + int dt, failing := fs\<rparr>)))"
    by (rule perform_inv)
  then show ?case unfolding a by (simp add: Cons.IH)
qed

lemma initial_inv: "sessionInv c initialSession"
  by (simp add: sessionInv_def initialSession_def)

lemma clearExpiredTokens_frame:
  "sess (snd (clearExpiredTokens w)) = sess w"
  "auditLog (db (snd (clearExpiredTokens w))) = auditLog (db w)"
  "now (snd (clearExpiredTokens w)) = now w"
  "failing (snd (clearExpiredTokens w)) = failing w"
  "userAgent (snd (clearExpiredTokens w)) = userAgent w"
  by (simp_all add: clearExpiredTokens_def split: option.splits prod.splits)

lemma clearExpiredTokens_twice:
  "clearExpiredTokens (snd (clearExpiredTokens w)) = clearExpiredTokens w"
  by (simp add: clearExpiredTokens_def unavailable_def split: option.splits prod.splits)

lemma clearSession_twice: "clearSession (clearSession w) = clearSession w"
  by (simp add: clearSession_def)

lemma clearSession_clearExpiredTokens:
  "clearSession (snd (clearExpiredTokens w)) = snd (clearExpiredTokens (clearSession w))"
  by (simp add: clearSession_def clearExpiredTokens_def unavailable_def
      split: option.splits prod.splits)

lemma clearSession_unauthenticated: "\<not> isAuthenticated (sess (clearSession w))"
  by (simp add: clearSession_def)

lemma endSession_unauthenticated:
  "\<not> isAuthenticated (sess w) \<Longrightarrow> endSession r w = clearExpiredTokens (clearSession w)"
  by (simp add: endSession_def)

lemma endSession_authenticated:
  "isAuthenticated (sess w) \<Longrightarrow>
   endSession r w = clearExpiredTokens (clearSession (snd (logEvent SESSION_END
      (actorOf (sessionUser (sess w)))
      [(''reason'', Str r), (''duration'', Num (getSessionDuration w))] w)))"
  by (simp add: endSession_def logEvent_def)

lemma cleared_twice:
  "snd (endSession r (snd (clearExpiredTokens (clearSession w)))) =
     snd (clearExpiredTokens (clearSession w))"
  "fst (endSession r (snd (clearExpiredTokens (clearSession w)))) =
     fst (clearExpiredTokens (clearSession w))"
proof -
  let ?v = "snd (clearExpiredTokens (clearSession w))"
  have na: "\<not> isAuthenticated (sess ?v)"
    by (simp add: clearExpiredTokens_frame clearSession_unauthenticated)
  have cs: "clearSession ?v = ?v"
    by (simp add: clearSession_clearExpiredTokens clearSession_twice)
  have "endSession r ?v = clearExpiredTokens ?v"
    using na cs by (simp add: endSession_unauthenticated)
  then have e: "endSession r ?v = clearExpiredTokens (clearSession w)"
    by (simp add: clearExpiredTokens_twice)
  show "snd (endSession r ?v) = ?v" by (simp add: e)
  show "fst (endSession r ?v) = fst (clearExpiredTokens (clearSession w))" by (simp add: e)
qed

lemma endSession_twice:
  "snd (endSession r2 (snd (endSession r1 w))) = snd (endSession r1 w)"
proof (cases "isAuthenticated (sess w)")
  case False
  then show ?thesis by (simp add: endSession_unauthenticated cleared_twice)
next
  case True
  then show ?thesis by (simp add: endSession_authenticated cleared_twice)
qed

lemma endSession_twice_returns:
  "fst (endSession r1 w) = Inr () \<Longrightarrow> fst (endSession r2 (snd (endSession r1 w))) = Inr ()"
proof (cases "isAuthenticated (sess w)")
  case False
  assume "fst (endSession r1 w) = Inr ()"
  with False show ?thesis by (simp add: endSession_unauthenticated cleared_twice)
next
  case True
  assume "fst (endSession r1 w) = Inr ()"
  with True show ?thesis by (simp add: endSession_authenticated cleared_twice)
qed

lemma endSession_available: "failing w = [] \<Longrightarrow> fst (endSession r w) = Inr ()"
  by (simp add: endSession_def logEvent_def clearExpiredTokens_def clearSession_def
      unavailable_def split: option.splits prod.splits)

lemma endSession_sess:
  "sess (snd (endSession r w)) =
     (sess w)\<lparr>inactivityTimer := None, isAuthenticated := False, sessionUser := None,
               sessionStart := None, sessionToken := None\<rparr>"
  by (simp add: endSession_def logEvent_def clearExpiredTokens_frame clearSession_def)

lemma endSession_frame:
  "now (snd (endSession r w)) = now w"
  "failing (snd (endSession r w)) = failing w"
  "userAgent (snd (endSession r w)) = userAgent w"
  by (simp_all add: endSession_def logEvent_def clearExpiredTokens_frame clearSession_def)

lemma initSession_sess:
  "sess (snd (initSession c w)) =
     (if fst (initSession c w) = Inr True
      then (sess w)\<lparr>sessionToken := map_option fst (tokenSlot (db w)), isAuthenticated := True,
                    sessionStart := Some (now w),
                    inactivityTimer :=
                      Some (now w + setTimeoutDelay (sessionTimeout (sess w) * 1000))\<rparr>
      else sess w)"
  by (simp add: initSession_def getValidToken_def logEvent_def startInactivityTimer_def
      split: option.splits prod.splits)

lemma startSession_sess:
  "sess (snd (startSession c u cred w)) =
     (if unavailable StoreToken w then sess w
      else (sess w)\<lparr>sessionToken :=
                      Some (generateJWT c
                        \<lparr>userId = anonymousOr (id_user u), username_claim = username u,
                         credentialId = cred, timestamp = now w\<rparr>),
                    isAuthenticated := True, sessionUser := Some u,
                    sessionStart := Some (now w),
                    inactivityTimer :=
                      Some (now w + setTimeoutDelay (sessionTimeout (sess w) * 1000))\<rparr>)"
  by (simp add: startSession_def storeToken_def logEvent_def startInactivityTimer_def Let_def)

lemma startSession_fst:
  "fst (startSession c u cred w) =
     (if unavailable StoreToken w then Inl (StoreUnavailable StoreToken)
      else Inr (generateJWT c
             \<lparr>userId = anonymousOr (id_user u), username_claim = username u,
              credentialId = cred, timestamp = now w\<rparr>))"
  by (simp add: startSession_def storeToken_def logEvent_def Let_def)

lemma startSession_available:
  "failing w = [] \<Longrightarrow>
   fst (startSession c u cred w) =
     Inr (generateJWT c \<lparr>userId = anonymousOr (id_user u), username_claim = username u,
                         credentialId = cred, timestamp = now w\<rparr>) \<and>
   inactivityTimer (sess (snd (startSession c u cred w))) =
     Some (now w + setTimeoutDelay (sessionTimeout (sess w) * 1000))"
  by (simp add: startSession_def storeToken_def logEvent_def unavailable_def
      startInactivityTimer_def Let_def)

lemma startSession_timeout:
  "sessionTimeout (sess (snd (startSession c u cred w))) = sessionTimeout (sess w)"
  by (simp add: startSession_sess)

lemma checkAuthentication_fst:
  "fst (checkAuthentication c w) = (\<not> unavailable GetValidToken w \<and> validTokenAvailable c w)"
  by (simp add: checkAuthentication_def getValidToken_def validTokenAvailable_def
      split: option.splits prod.splits)

lemma updateSessionTimeout_frame:
  "sessionTimeout (sess (updateSessionTimeout n w)) = n"
  "now (updateSessionTimeout n w) = now w"
  "failing (updateSessionTimeout n w) = failing w"
  by (simp_all add: updateSessionTimeout_def startInactivityTimer_def Let_def)

section \<open>Route guard on protected paths\<close>

text \<open>
  C1, as stated: on a navigation to a protected path with an unauthenticated session the
  guard attempts \<open>initSession\<close>, and if that fails it redirects to \<^verbatim>\<open>/auth\<close> and logs
  exactly one \<open>UNAUTHORIZED_ACCESS\<close> event. Neither guard of the program does both. The
  guard of \<open>useRouteGuard\<close> attempts \<open>initSession\<close> and redirects, but logs nothing: with
  an empty store the log holds no \<open>UNAUTHORIZED_ACCESS\<close> event afterwards. The guard of
  \<open>AuthMiddleware\<close> never calls \<open>initSession\<close>: with a resumable token in the store,
  where \<open>initSession\<close> would succeed, it allows the navigation and the session stays
  unauthenticated, with no \<open>SESSION_START\<close> logged.
\<close>

theorem guard_resume_and_log_counterexample:
  "fst (useRouteGuard_beforeEach exampleJwt dashboardRoute emptyWorld) = Inr (REDIRECT ''/auth'') \<and>
   countKind UNAUTHORIZED_ACCESS
     (snd (useRouteGuard_beforeEach exampleJwt dashboardRoute emptyWorld)) = 0 \<and>
   fst (initSession exampleJwt resumableWorld) = Inr True \<and>
   fst (authMiddleware_beforeEach exampleJwt ''/dashboard'' resumableWorld) = Inr ALLOW \<and>
   \<not> isAuthenticated
       (sess (snd (authMiddleware_beforeEach exampleJwt ''/dashboard'' resumableWorld))) \<and>
   countKind SESSION_START
     (snd (authMiddleware_beforeEach exampleJwt ''/dashboard'' resumableWorld)) = 0"
  by (simp add: guard_defs session_defs store_defs example_defs)

text \<open>
  C1, amended: the guard of \<open>AuthMiddleware\<close> checks the store itself
  (\<open>checkAuthentication\<close>) and never changes the session; on a protected path, if that
  check fails and the event can be written, it redirects to \<^verbatim>\<open>/auth\<close> and appends exactly
  one \<open>UNAUTHORIZED_ACCESS\<close> event carrying the path and the user agent. The guard of
  \<open>useRouteGuard\<close>, on a route that requires authentication with an unauthenticated
  session, attempts \<open>initSession\<close>; if that returns false it redirects to \<^verbatim>\<open>/auth\<close> and
  logs nothing.
\<close>

theorem guards_protected_unauthenticated:
  "(requiresAuthentication p \<and> \<not> fst (checkAuthentication c w) \<and> \<not> unavailable LogEvent w \<longrightarrow>
      fst (authMiddleware_beforeEach c p w) = Inr (REDIRECT ''/auth'') \<and>
      auditLog (db (snd (authMiddleware_beforeEach c p w))) =
        auditLog (db w) @
          [\<lparr>kind = UNAUTHORIZED_ACCESS, actor = ''system'',
            metadata = [(''path'', Str p), (''userAgent'', Str (userAgent w))],
            loggedAt = now w\<rparr>]) \<and>
   sess (snd (authMiddleware_beforeEach c p w)) = sess w \<and>
   ((\<exists>r \<in> set (matched to). meta_requiresAuth r) \<and> \<not> isAuthenticated (sess w) \<and>
      fst (initSession c w) = Inr False \<longrightarrow>
      useRouteGuard_beforeEach c to w = (Inr (REDIRECT ''/auth''), snd (initSession c w)) \<and>
      auditLog (db (snd (useRouteGuard_beforeEach c to w))) = auditLog (db w))"
proof (intro conjI impI)
  obtain a w1 where ca: "checkAuthentication c w = (a, w1)"
    by (cases "checkAuthentication c w")
  have fr: "sess w1 = sess w" "auditLog (db w1) = auditLog (db w)" "now w1 = now w"
    "failing w1 = failing w" "userAgent w1 = userAgent w"
    using checkAuthentication_frame[of c w] ca by simp_all
  show "sess (snd (authMiddleware_beforeEach c p w)) = sess w"
    using fr
    by (simp add: authMiddleware_beforeEach_def ca logRouteAccess_def logEvent_def
        unavailable_def Let_def split: sum.splits prod.splits)
  {
    assume h: "requiresAuthentication p \<and> \<not> fst (checkAuthentication c w) \<and>
      \<not> unavailable LogEvent w"
    then have na: "\<not> a" using ca by simp
    show "fst (authMiddleware_beforeEach c p w) = Inr (REDIRECT ''/auth'')"
      using h na fr by (simp add: authMiddleware_beforeEach_def ca logEvent_def unavailable_def)
    show "auditLog (db (snd (authMiddleware_beforeEach c p w))) =
        auditLog (db w) @
          [\<lparr>kind = UNAUTHORIZED_ACCESS, actor = ''system'',
            metadata = [(''path'', Str p), (''userAgent'', Str (userAgent w))],
            loggedAt = now w\<rparr>]"
      using h na fr by (simp add: authMiddleware_beforeEach_def ca logEvent_def unavailable_def)
  }
  {
    assume h: "(\<exists>r \<in> set (matched to). meta_requiresAuth r) \<and> \<not> isAuthenticated (sess w) \<and>
      fst (initSession c w) = Inr False"
    show g: "useRouteGuard_beforeEach c to w = (Inr (REDIRECT ''/auth''), snd (initSession c w))"
      using h by (cases "initSession c w") (auto simp: useRouteGuard_beforeEach_def)
    have "auditLog (db (snd (initSession c w))) = auditLog (db w)"
      using h by (auto simp: initSession_def store_defs startInactivityTimer_def
          split: option.splits prod.splits sum.splits if_splits)
    then show "auditLog (db (snd (useRouteGuard_beforeEach c to w))) = auditLog (db w)"
      using g by simp
  }
qed

theorem guards_protected_unauthenticated_witness:
  "requiresAuthentication ''/dashboard'' \<and> \<not> fst (checkAuthentication exampleJwt emptyWorld) \<and>
   \<not> unavailable LogEvent emptyWorld \<and>
   (\<exists>r \<in> set (matched dashboardRoute). meta_requiresAuth r) \<and>
   \<not> isAuthenticated (sess emptyWorld) \<and> fst (initSession exampleJwt emptyWorld) = Inr False \<and>
   fst (authMiddleware_beforeEach exampleJwt ''/dashboard'' emptyWorld) = Inr (REDIRECT ''/auth'') \<and>
   countKind UNAUTHORIZED_ACCESS
     (snd (authMiddleware_beforeEach exampleJwt ''/dashboard'' emptyWorld)) = 1 \<and>
   fst (useRouteGuard_beforeEach exampleJwt dashboardRoute emptyWorld) = Inr (REDIRECT ''/auth'')"
  using guards_protected_unauthenticated[of "''/dashboard''" exampleJwt emptyWorld dashboardRoute]
  by (simp add: guard_defs session_defs store_defs example_defs)

section \<open>Session invariant\<close>

text \<open>
  C2: in every state reached from the initial session by any sequence of \<open>initSession\<close>,
  \<open>startSession\<close> and \<open>endSession\<close> calls (at any times, whichever store calls fail),
  the session is authenticated if and only if it holds a token, that token was accepted
  by the codec at the check that installed it or was freshly issued, and a user is
  present only when the session is authenticated.
\<close>

theorem session_invariant_reachable:
  assumes "sess w = initialSession"
  shows "(isAuthenticated (sess (run c w calls)) \<longleftrightarrow> sessionToken (sess (run c w calls)) \<noteq> None) \<and>
         (sessionUser (sess (run c w calls)) \<noteq> None \<longrightarrow> isAuthenticated (sess (run c w calls))) \<and>
         (isAuthenticated (sess (run c w calls)) \<longrightarrow> tokenVouched c (sess (run c w calls)))"
proof -
  have "sessionInv c (sess w)"
    using assms initial_inv by simp
  then have "sessionInv c (sess (run c w calls))"
    by (rule run_inv)
  then show ?thesis
    unfolding sessionInv_def .
qed

theorem session_invariant_reachable_witness:
  "sess emptyWorld = initialSession \<and>
   sessionUser (sess (run exampleJwt emptyWorld
      [(0, [], StartSession exampleUser ''cred1''), (5000, [LogEvent], InitSession)])) \<noteq> None \<and>
   isAuthenticated (sess (run exampleJwt emptyWorld
      [(0, [], StartSession exampleUser ''cred1''), (5000, [LogEvent], InitSession)])) \<and>
   sessionToken (sess (run exampleJwt emptyWorld
      [(0, [], StartSession exampleUser ''cred1''), (5000, [LogEvent], InitSession)])) =
     Some ''jwt:alice''"
  using session_invariant_reachable[of emptyWorld exampleJwt
      "[(0, [], StartSession exampleUser ''cred1''), (5000, [LogEvent], InitSession)]"]
  by (simp add: session_defs store_defs example_defs Let_def)

section \<open>Resuming while authenticated\<close>

text \<open>
  C3, as stated: \<open>initSession\<close> called on an authenticated session is a no-op that
  returns true. The function has no test of \<open>isAuthenticated\<close>; its callers have
  (\<open>useRouteGuard\<close>, \<^verbatim>\<open>withSession\<close>). Five seconds after a login it returns true but
  moves \<open>sessionStart\<close> from 0 to 5000 and logs a second \<open>SESSION_START\<close>. On a session
  kept alive by activity beyond the stored token's expiry it returns false.
\<close>

theorem initSession_authenticated_counterexample:
  "isAuthenticated (sess (loggedIn\<lparr>now := 5000\<rparr>)) \<and>
   fst (initSession exampleJwt (loggedIn\<lparr>now := 5000\<rparr>)) = Inr True \<and>
   sessionStart (sess (loggedIn\<lparr>now := 5000\<rparr>)) = Some 0 \<and>
   sessionStart (sess (snd (initSession exampleJwt (loggedIn\<lparr>now := 5000\<rparr>)))) = Some 5000 \<and>
   countKind SESSION_START (loggedIn\<lparr>now := 5000\<rparr>) = 1 \<and>
   countKind SESSION_START (snd (initSession exampleJwt (loggedIn\<lparr>now := 5000\<rparr>))) = 2 \<and>
   isAuthenticated (sess activeLate) \<and>
   fst (initSession exampleJwt activeLate) = Inr False"
  by (simp add: activeLate_def guard_defs session_defs store_defs example_defs Let_def)

text \<open>
  C3, amended: with every store call available, \<open>initSession\<close> on an authenticated
  session returns true exactly when the store holds a valid token; then the
  authenticated flag, the user and the timeout are unchanged, but the token is replaced
  by the stored one, \<open>sessionStart\<close> is reset to now, the inactivity timer is restarted
  and one \<open>SESSION_START\<close> event is appended. Otherwise it returns false and leaves the
  session and the log as they were.
\<close>

theorem initSession_authenticated:
  assumes "isAuthenticated (sess w)" and "failing w = []"
  shows "(tokenSlot (db w) = Some (t, e) \<and> validTokenAvailable c w \<longrightarrow>
           fst (initSession c w) = Inr True \<and>
           sess (snd (initSession c w)) =
             (sess w)\<lparr>sessionToken := Some t, sessionStart := Some (now w),
                       inactivityTimer :=
                         Some (now w + setTimeoutDelay (sessionTimeout (sess w) * 1000))\<rparr> \<and>
           auditLog (db (snd (initSession c w))) =
             auditLog (db w) @
               [\<lparr>kind = SESSION_START, actor = ''system'',
                 metadata = [(''token'', Str (take 10 t @ ''...''))], loggedAt = now w\<rparr>]) \<and>
         (\<not> validTokenAvailable c w \<longrightarrow>
           fst (initSession c w) = Inr False \<and>
           sess (snd (initSession c w)) = sess w \<and>
           auditLog (db (snd (initSession c w))) = auditLog (db w))"
  using assms
  by (auto simp: validTokenAvailable_def initSession_def store_defs startInactivityTimer_def
      split: option.splits prod.splits sum.splits if_splits)

theorem initSession_authenticated_witness:
  "isAuthenticated (sess (loggedIn\<lparr>now := 5000\<rparr>)) \<and> failing (loggedIn\<lparr>now := 5000\<rparr>) = [] \<and>
   tokenSlot (db (loggedIn\<lparr>now := 5000\<rparr>)) = Some (''jwt:alice'', 900000) \<and>
   validTokenAvailable exampleJwt (loggedIn\<lparr>now := 5000\<rparr>) \<and>
   fst (initSession exampleJwt (loggedIn\<lparr>now := 5000\<rparr>)) = Inr True \<and>
   isAuthenticated (sess activeLate) \<and> failing activeLate = [] \<and>
   \<not> validTokenAvailable exampleJwt activeLate \<and>
   fst (initSession exampleJwt activeLate) = Inr False"
  using initSession_authenticated[of "loggedIn\<lparr>now := 5000\<rparr>" "''jwt:alice''" 900000 exampleJwt]
    initSession_authenticated[of activeLate "''jwt:alice''" 900000 exampleJwt]
  by (simp add: activeLate_def validTokenAvailable_def session_defs store_defs example_defs Let_def)

section \<open>Route access logging\<close>

text \<open>
  C4, as stated: every evaluation of the guard logs a \<open>ROUTE_ACCESS\<close> event, whatever the
  decision. \<open>logRouteAccess\<close> is called only after both redirecting branches have
  returned: the redirect to \<^verbatim>\<open>/auth\<close> (empty store) and the redirect to \<^verbatim>\<open>/dashboard\<close>
  (token in the store) leave no \<open>ROUTE_ACCESS\<close> event.
\<close>

theorem route_access_on_redirect_counterexample:
  "fst (authMiddleware_beforeEach exampleJwt ''/dashboard'' emptyWorld) = Inr (REDIRECT ''/auth'') \<and>
   countKind ROUTE_ACCESS (snd (authMiddleware_beforeEach exampleJwt ''/dashboard'' emptyWorld)) = 0 \<and>
   fst (authMiddleware_beforeEach exampleJwt ''/auth'' resumableWorld) =
     Inr (REDIRECT ''/dashboard'') \<and>
   countKind ROUTE_ACCESS (snd (authMiddleware_beforeEach exampleJwt ''/auth'' resumableWorld)) = 0"
  by (simp add: guard_defs session_defs store_defs example_defs)

text \<open>
  C4, amended: when the decision is \<open>ALLOW\<close>, one \<open>ROUTE_ACCESS\<close> event carrying the path
  and the authentication state is appended, best-effort (if the write fails,
  the navigation is still allowed and the log is unchanged). When the guard does not
  allow the navigation, no \<open>ROUTE_ACCESS\<close> event is logged.
\<close>

theorem route_access_logged_on_allow:
  "(fst (authMiddleware_beforeEach c p w) = Inr ALLOW \<and> \<not> unavailable LogEvent w \<longrightarrow>
      auditLog (db (snd (authMiddleware_beforeEach c p w))) =
        auditLog (db w) @
          [\<lparr>kind = ROUTE_ACCESS,
            actor = (if fst (checkAuthentication c w) then ''authenticated'' else ''anonymous''),
            metadata = [(''path'', Str p),
                        (''authenticated'', Bool (fst (checkAuthentication c w))),
                        (''timestamp'', IsoTime (now w))],
            loggedAt = now w\<rparr>]) \<and>
   (fst (authMiddleware_beforeEach c p w) = Inr ALLOW \<and> unavailable LogEvent w \<longrightarrow>
      auditLog (db (snd (authMiddleware_beforeEach c p w))) = auditLog (db w)) \<and>
   (fst (authMiddleware_beforeEach c p w) \<noteq> Inr ALLOW \<longrightarrow>
      countKind ROUTE_ACCESS (snd (authMiddleware_beforeEach c p w)) = countKind ROUTE_ACCESS w)"
proof -
  obtain a w1 where ca: "checkAuthentication c w = (a, w1)"
    by (cases "checkAuthentication c w")
  have fr: "sess w1 = sess w" "auditLog (db w1) = auditLog (db w)" "now w1 = now w"
    "failing w1 = failing w" "userAgent w1 = userAgent w"
    using checkAuthentication_frame[of c w] ca by simp_all
  show ?thesis
    using fr
    by (auto simp: authMiddleware_beforeEach_def ca logRouteAccess_def logEvent_def
        unavailable_def Let_def countKind_def split: sum.splits prod.splits if_splits)
qed

theorem route_access_logged_on_allow_witness:
  "fst (authMiddleware_beforeEach exampleJwt ''/'' emptyWorld) = Inr ALLOW \<and>
   \<not> unavailable LogEvent emptyWorld \<and>
   countKind ROUTE_ACCESS (snd (authMiddleware_beforeEach exampleJwt ''/'' emptyWorld)) = 1 \<and>
   fst (authMiddleware_beforeEach exampleJwt ''/'' (emptyWorld\<lparr>failing := [LogEvent]\<rparr>)) =
     Inr ALLOW \<and>
   unavailable LogEvent (emptyWorld\<lparr>failing := [LogEvent]\<rparr>) \<and>
   auditLog (db (snd (authMiddleware_beforeEach exampleJwt ''/''
      (emptyWorld\<lparr>failing := [LogEvent]\<rparr>)))) = [] \<and>
   fst (authMiddleware_beforeEach exampleJwt ''/dashboard'' emptyWorld) \<noteq> Inr ALLOW \<and>
   countKind ROUTE_ACCESS (snd (authMiddleware_beforeEach exampleJwt ''/dashboard'' emptyWorld)) = 0"
  using route_access_logged_on_allow[of exampleJwt "''/''" emptyWorld]
    route_access_logged_on_allow[of exampleJwt "''/''" "emptyWorld\<lparr>failing := [LogEvent]\<rparr>"]
    route_access_logged_on_allow[of exampleJwt "''/dashboard''" emptyWorld]
  by (simp add: guard_defs session_defs store_defs example_defs)

section \<open>Failure atomicity\<close>

text \<open>
  C5: whichever store calls fail and whatever the codec answers, no session operation
  leaves the session cells partially updated. \<open>initSession\<close> either returns true with
  the token, the authenticated flag and the start time set and the inactivity timer
  started, or leaves the cells exactly as they were (a rejected \<open>getValidToken\<close>, no
  stored token, or a token the codec refuses). \<open>startSession\<close> either returns the issued
  token with token, flag, user and start time set and the timer started, or leaves the
  cells exactly as they were (a rejected \<open>storeToken\<close>). \<open>endSession\<close> always resets the
  cells together. A failed event write is swallowed by the store and changes none of this.
\<close>

theorem session_operations_atomic:
  "(fst (initSession c w) = Inr True \<longrightarrow>
      sess (snd (initSession c w)) =
        (sess w)\<lparr>sessionToken := map_option fst (tokenSlot (db w)), isAuthenticated := True,
                  sessionStart := Some (now w),
                  inactivityTimer :=
                    Some (now w + setTimeoutDelay (sessionTimeout (sess w) * 1000))\<rparr>) \<and>
   (fst (initSession c w) \<noteq> Inr True \<longrightarrow> sess (snd (initSession c w)) = sess w) \<and>
   (unavailable GetValidToken w \<longrightarrow>
      fst (initSession c w) = Inl (StoreUnavailable GetValidToken)) \<and>
   (\<not> unavailable StoreToken w \<longrightarrow>
      fst (startSession c u cred w) =
        Inr (generateJWT c
               \<lparr>userId = anonymousOr (id_user u), username_claim = username u,
                credentialId = cred, timestamp = now w\<rparr>) \<and>
      sess (snd (startSession c u cred w)) =
        (sess w)\<lparr>sessionToken :=
                    Some (generateJWT c
                      \<lparr>userId = anonymousOr (id_user u), username_claim = username u,
                       credentialId = cred, timestamp = now w\<rparr>),
                  isAuthenticated := True, sessionUser := Some u,
                  sessionStart := Some (now w),
                  inactivityTimer :=
                    Some (now w + setTimeoutDelay (sessionTimeout (sess w) * 1000))\<rparr>) \<and>
   (unavailable StoreToken w \<longrightarrow>
      fst (startSession c u cred w) = Inl (StoreUnavailable StoreToken) \<and>
      sess (snd (startSession c u cred w)) = sess w) \<and>
   sess (snd (endSession reason w)) =
     (sess w)\<lparr>inactivityTimer := None, isAuthenticated := False, sessionUser := None,
               sessionStart := None, sessionToken := None\<rparr>"
proof (intro conjI impI)
  show "sess (snd (initSession c w)) =
        (sess w)\<lparr>sessionToken := map_option fst (tokenSlot (db w)), isAuthenticated := True,
                  sessionStart := Some (now w),
                  inactivityTimer :=
                    Some (now w + setTimeoutDelay (sessionTimeout (sess w) * 1000))\<rparr>"
    if "fst (initSession c w) = Inr True"
    using that initSession_sess[of c w] by simp
  show "sess (snd (initSession c w)) = sess w" if "fst (initSession c w) \<noteq> Inr True"
    using that initSession_sess[of c w] by simp
  show "fst (initSession c w) = Inl (StoreUnavailable GetValidToken)"
    if "unavailable GetValidToken w"
    using that by (simp add: initSession_def getValidToken_def)
  show "fst (startSession c u cred w) =
        Inr (generateJWT c
               \<lparr>userId = anonymousOr (id_user u), username_claim = username u,
                credentialId = cred, timestamp = now w\<rparr>)"
    if "\<not> unavailable StoreToken w"
    using that by (simp add: startSession_fst)
  show "sess (snd (startSession c u cred w)) =
        (sess w)\<lparr>sessionToken :=
                    Some (generateJWT c
                      \<lparr>userId = anonymousOr (id_user u), username_claim = username u,
                       credentialId = cred, timestamp = now w\<rparr>),
                  isAuthenticated := True, sessionUser := Some u,
                  sessionStart := Some (now w),
                  inactivityTimer :=
                    Some (now w + setTimeoutDelay (sessionTimeout (sess w) * 1000))\<rparr>"
    if "\<not> unavailable StoreToken w"
    using that by (simp add: startSession_sess)
  show "fst (startSession c u cred w) = Inl (StoreUnavailable StoreToken)"
    if "unavailable StoreToken w"
    using that by (simp add: startSession_fst)
  show "sess (snd (startSession c u cred w)) = sess w" if "unavailable StoreToken w"
    using that by (simp add: startSession_sess)
  show "sess (snd (endSession reason w)) =
     (sess w)\<lparr>inactivityTimer := None, isAuthenticated := False, sessionUser := None,
               sessionStart := None, sessionToken := None\<rparr>"
    by (rule endSession_sess)
qed

theorem session_operations_atomic_witness:
  "fst (initSession exampleJwt (resumableWorld\<lparr>failing := [LogEvent]\<rparr>)) = Inr True \<and>
   \<not> unavailable StoreToken (resumableWorld\<lparr>failing := [LogEvent]\<rparr>) \<and>
   isAuthenticated (sess (snd (initSession exampleJwt
      (resumableWorld\<lparr>failing := [LogEvent]\<rparr>)))) \<and>
   inactivityTimer (sess (snd (initSession exampleJwt
      (resumableWorld\<lparr>failing := [LogEvent]\<rparr>)))) = Some 900000 \<and>
   inactivityTimer (sess (snd (startSession exampleJwt exampleUser ''cred1''
      (resumableWorld\<lparr>failing := [LogEvent]\<rparr>)))) = Some 900000 \<and>
   unavailable GetValidToken (resumableWorld\<lparr>failing := [GetValidToken, StoreToken]\<rparr>) \<and>
   unavailable StoreToken (resumableWorld\<lparr>failing := [GetValidToken, StoreToken]\<rparr>) \<and>
   fst (initSession exampleJwt (resumableWorld\<lparr>failing := [GetValidToken, StoreToken]\<rparr>)) \<noteq>
     Inr True \<and>
   sess (snd (initSession exampleJwt
      (resumableWorld\<lparr>failing := [GetValidToken, StoreToken]\<rparr>))) = initialSession \<and>
   sess (snd (startSession exampleJwt exampleUser ''cred1''
      (resumableWorld\<lparr>failing := [GetValidToken, StoreToken]\<rparr>))) = initialSession"
  using session_operations_atomic[of exampleJwt "resumableWorld\<lparr>failing := [LogEvent]\<rparr>"
      exampleUser "''cred1''" "''user_logout''"]
    session_operations_atomic[of exampleJwt
      "resumableWorld\<lparr>failing := [GetValidToken, StoreToken]\<rparr>"
      exampleUser "''cred1''" "''user_logout''"]
  by (simp add: session_defs store_defs example_defs Let_def)

section \<open>Ending a session\<close>

text \<open>
  C6: \<open>endSession\<close> called twice in a row leaves, after the second call, exactly the
  state the first call left (the session cells, hence \<open>sessionInfo\<close>, and the store as
  well); the second call returns normally whenever the first did, and the first does
  when the store is available.
\<close>

theorem endSession_idempotent:
  "snd (endSession r2 (snd (endSession r1 w))) = snd (endSession r1 w) \<and>
   sessionInfo (snd (endSession r2 (snd (endSession r1 w)))) = sessionInfo (snd (endSession r1 w)) \<and>
   (fst (endSession r1 w) = Inr () \<longrightarrow> fst (endSession r2 (snd (endSession r1 w))) = Inr ()) \<and>
   (failing w = [] \<longrightarrow> fst (endSession r1 w) = Inr ())"
proof (intro conjI impI)
  show e: "snd (endSession r2 (snd (endSession r1 w))) = snd (endSession r1 w)"
    by (rule endSession_twice)
  show "sessionInfo (snd (endSession r2 (snd (endSession r1 w)))) =
      sessionInfo (snd (endSession r1 w))"
    by (simp only: e)
  show "fst (endSession r2 (snd (endSession r1 w))) = Inr ()" if "fst (endSession r1 w) = Inr ()"
    using that by (rule endSession_twice_returns)
  show "fst (endSession r1 w) = Inr ()" if "failing w = []"
    using that by (rule endSession_available)
qed

theorem endSession_idempotent_witness:
  "failing loggedIn = [] \<and> fst (endSession ''user_logout'' loggedIn) = Inr () \<and>
   fst (endSession ''user_logout'' (snd (endSession ''user_logout'' loggedIn))) = Inr () \<and>
   \<not> isAuthenticated
       (sess (snd (endSession ''user_logout'' (snd (endSession ''user_logout'' loggedIn)))))"
  using endSession_idempotent[of "''user_logout''" "''user_logout''" loggedIn]
  by (simp add: session_defs store_defs example_defs Let_def)

text \<open>
  C9: \<open>endSession\<close> does not revoke a still-valid token. When the store holds a token that
  is unexpired and accepted by the codec, and the store is available, \<open>endSession\<close> (for
  any reason) leaves the stored token in place, and \<open>initSession\<close> right after it returns
  true with the session authenticated on that token.
\<close>

theorem endSession_keeps_valid_token:
  assumes "validTokenAvailable c w" and "failing w = []"
  shows "tokenSlot (db (snd (endSession reason w))) = tokenSlot (db w) \<and>
         fst (initSession c (snd (endSession reason w))) = Inr True \<and>
         isAuthenticated (sess (snd (initSession c (snd (endSession reason w))))) \<and>
         sessionToken (sess (snd (initSession c (snd (endSession reason w))))) =
           map_option fst (tokenSlot (db w))"
  using assms
  by (auto simp: validTokenAvailable_def initSession_def endSession_def clearSession_def
      startInactivityTimer_def store_defs
      split: option.splits prod.splits sum.splits if_splits)

theorem endSession_keeps_valid_token_witness:
  "validTokenAvailable exampleJwt (loggedIn\<lparr>now := 5000\<rparr>) \<and>
   failing (loggedIn\<lparr>now := 5000\<rparr>) = [] \<and>
   \<not> isAuthenticated (sess (snd (endSession ''user_logout'' (loggedIn\<lparr>now := 5000\<rparr>)))) \<and>
   isAuthenticated (sess (snd (initSession exampleJwt
      (snd (endSession ''user_logout'' (loggedIn\<lparr>now := 5000\<rparr>))))))"
  using endSession_keeps_valid_token[of exampleJwt "loggedIn\<lparr>now := 5000\<rparr>" "''user_logout''"]
  by (simp add: validTokenAvailable_def session_defs store_defs example_defs Let_def)

text \<open>
  C10: \<open>endSession\<close> never changes \<open>sessionTimeout\<close>. It either leaves the session cells
  untouched or resets exactly the authenticated flag, the user, the start time, the token
  and the pending timer; the latter whenever it returns. A timeout set by
  \<open>updateSessionTimeout\<close> is still in force after \<open>endSession\<close> and after the next
  \<open>startSession\<close>, and, being a number of seconds whose milliseconds fit the timer
  (between 0 and 2147483), it sets the inactivity deadline of that next session.
\<close>

theorem endSession_keeps_timeout:
  "sessionTimeout (sess (snd (endSession reason w))) = sessionTimeout (sess w) \<and>
   (sess (snd (endSession reason w)) = sess w \<or>
    sess (snd (endSession reason w)) =
      (sess w)\<lparr>inactivityTimer := None, isAuthenticated := False, sessionUser := None,
                sessionStart := None, sessionToken := None\<rparr>) \<and>
   (fst (endSession reason w) = Inr () \<longrightarrow>
      sess (snd (endSession reason w)) =
        (sess w)\<lparr>inactivityTimer := None, isAuthenticated := False, sessionUser := None,
                  sessionStart := None, sessionToken := None\<rparr>) \<and>
   sessionTimeout (sess (snd (endSession reason (updateSessionTimeout n w)))) = n \<and>
   sessionTimeout (sess (snd (startSession c u cred
       (snd (endSession reason (updateSessionTimeout n w)))))) = n \<and>
   (failing w = [] \<and> 0 \<le> n \<and> n \<le> 2147483 \<longrightarrow>
      inactivityTimer (sess (snd (startSession c u cred
          (snd (endSession reason (updateSessionTimeout n w)))))) = Some (now w + n * 1000))"
proof (intro conjI impI)
  show t: "sessionTimeout (sess (snd (endSession reason w))) = sessionTimeout (sess w)" for w
    by (simp add: endSession_sess)
  show "sess (snd (endSession reason w)) = sess w \<or>
    sess (snd (endSession reason w)) =
      (sess w)\<lparr>inactivityTimer := None, isAuthenticated := False, sessionUser := None,
                sessionStart := None, sessionToken := None\<rparr>"
    by (simp add: endSession_sess)
  show "sess (snd (endSession reason w)) =
        (sess w)\<lparr>inactivityTimer := None, isAuthenticated := False, sessionUser := None,
                  sessionStart := None, sessionToken := None\<rparr>"
    if "fst (endSession reason w) = Inr ()"
    by (rule endSession_sess)
  show u: "sessionTimeout (sess (snd (endSession reason (updateSessionTimeout n w)))) = n"
    by (simp add: t updateSessionTimeout_frame)
  let ?v = "snd (endSession reason (updateSessionTimeout n w))"
  show "sessionTimeout (sess (snd (startSession c u cred ?v))) = n"
    using u by (simp add: startSession_timeout)
  assume h: "failing w = [] \<and> 0 \<le> n \<and> n \<le> 2147483"
  then have fv: "failing ?v = []" and nv: "now ?v = now w"
    by (simp_all add: endSession_frame updateSessionTimeout_frame)
  have d: "setTimeoutDelay (n * 1000) = n * 1000"
    using h by (simp add: setTimeoutDelay_def)
  show "inactivityTimer (sess (snd (startSession c u cred ?v))) = Some (now w + n * 1000)"
    using startSession_available[OF fv, of c u cred] nv u d by simp
qed

theorem endSession_keeps_timeout_witness:
  "fst (endSession ''user_logout'' (updateSessionTimeout 60 loggedIn)) = Inr () \<and>
   failing loggedIn = [] \<and> (0::int) \<le> 60 \<and> (60::int) \<le> 2147483 \<and>
   sessionTimeout (sess (snd (endSession ''user_logout'' (updateSessionTimeout 60 loggedIn)))) = 60 \<and>
   \<not> isAuthenticated (sess (snd (endSession ''user_logout'' (updateSessionTimeout 60 loggedIn)))) \<and>
   inactivityTimer (sess (snd (startSession exampleJwt exampleUser ''cred2''
      (snd (endSession ''user_logout'' (updateSessionTimeout 60 loggedIn)))))) = Some 60000"
  using endSession_keeps_timeout[of "''user_logout''" "updateSessionTimeout 60 loggedIn" 60
      exampleJwt exampleUser "''cred2''"]
    endSession_keeps_timeout[of "''user_logout''" loggedIn 60 exampleJwt exampleUser "''cred2''"]
  by (simp add: session_defs store_defs example_defs Let_def)

section \<open>Decisions of the middleware guard\<close>

text \<open>
  C7, as stated: a navigation to \<^verbatim>\<open>/auth\<close> while the session is authenticated is
  redirected to \<^verbatim>\<open>/dashboard\<close>. The guard of \<open>AuthMiddleware\<close> never reads the session:
  it asks the store. On a session kept alive by activity beyond the stored token's
  expiry the session is authenticated and the navigation to \<^verbatim>\<open>/auth\<close> is allowed.
\<close>

theorem auth_route_authenticated_session_counterexample:
  "isAuthenticated (sess activeLate) \<and>
   fst (authMiddleware_beforeEach exampleJwt ''/auth'' activeLate) = Inr ALLOW"
  by (simp add: activeLate_def guard_defs session_defs store_defs example_defs Let_def)

text \<open>
  C7, amended: the guard of \<open>AuthMiddleware\<close> redirects a navigation to \<^verbatim>\<open>/auth\<close> to
  \<^verbatim>\<open>/dashboard\<close> exactly when its own check succeeds, that is when the store answers and
  holds a valid token, whatever the session's authenticated flag; otherwise it allows
  the navigation. It allows \<^verbatim>\<open>/\<close> whatever that check says, and treats a path absent
  from \<open>routeConfig\<close> as public, allowing it whatever the check says.
\<close>

theorem guard_decisions:
  "fst (checkAuthentication c w) = (\<not> unavailable GetValidToken w \<and> validTokenAvailable c w) \<and>
   (fst (checkAuthentication c w) \<longrightarrow>
      fst (authMiddleware_beforeEach c ''/auth'' w) = Inr (REDIRECT ''/dashboard'')) \<and>
   (\<not> fst (checkAuthentication c w) \<longrightarrow>
      fst (authMiddleware_beforeEach c ''/auth'' w) = Inr ALLOW) \<and>
   fst (authMiddleware_beforeEach c ''/'' w) = Inr ALLOW \<and>
   (routeConfig p = None \<longrightarrow>
      routeTypeOf p = PUBLIC \<and> \<not> requiresAuthentication p \<and> \<not> isAuthenticationRoute p \<and>
      fst (authMiddleware_beforeEach c p w) = Inr ALLOW)"
proof (intro conjI)
  show "fst (checkAuthentication c w) =
      (\<not> unavailable GetValidToken w \<and> validTokenAvailable c w)"
    by (rule checkAuthentication_fst)
  show "fst (checkAuthentication c w) \<longrightarrow>
      fst (authMiddleware_beforeEach c ''/auth'' w) = Inr (REDIRECT ''/dashboard'')"
    by (cases "checkAuthentication c w")
       (simp add: authMiddleware_beforeEach_def requiresAuthentication_def
          isAuthenticationRoute_def routeTypeOf_def routeConfig_def Let_def)
  show "\<not> fst (checkAuthentication c w) \<longrightarrow>
      fst (authMiddleware_beforeEach c ''/auth'' w) = Inr ALLOW"
    by (cases "checkAuthentication c w")
       (simp add: authMiddleware_beforeEach_def requiresAuthentication_def
          isAuthenticationRoute_def routeTypeOf_def routeConfig_def Let_def)
  show "fst (authMiddleware_beforeEach c ''/'' w) = Inr ALLOW"
    by (cases "checkAuthentication c w")
       (simp add: authMiddleware_beforeEach_def requiresAuthentication_def
          isAuthenticationRoute_def routeTypeOf_def routeConfig_def Let_def)
  show "routeConfig p = None \<longrightarrow>
      routeTypeOf p = PUBLIC \<and> \<not> requiresAuthentication p \<and> \<not> isAuthenticationRoute p \<and>
      fst (authMiddleware_beforeEach c p w) = Inr ALLOW"
    by (cases "checkAuthentication c w")
       (simp add: authMiddleware_beforeEach_def requiresAuthentication_def
          isAuthenticationRoute_def routeTypeOf_def Let_def)
qed

theorem guard_decisions_witness:
  "fst (checkAuthentication exampleJwt resumableWorld) \<and>
   \<not> isAuthenticated (sess resumableWorld) \<and>
   fst (authMiddleware_beforeEach exampleJwt ''/auth'' resumableWorld) =
     Inr (REDIRECT ''/dashboard'') \<and>
   \<not> fst (checkAuthentication exampleJwt activeLate) \<and>
   fst (authMiddleware_beforeEach exampleJwt ''/auth'' activeLate) = Inr ALLOW \<and>
   routeConfig ''/about'' = None \<and>
   fst (authMiddleware_beforeEach exampleJwt ''/about'' resumableWorld) = Inr ALLOW \<and>
   fst (authMiddleware_beforeEach exampleJwt ''/about'' activeLate) = Inr ALLOW"
  using guard_decisions[of exampleJwt resumableWorld "''/about''"]
    guard_decisions[of exampleJwt activeLate "''/about''"]
  by (simp add: activeLate_def validTokenAvailable_def guard_defs session_defs store_defs
      example_defs Let_def)

section \<open>The route-protection helper\<close>

text \<open>
  C8: provided the store answers \<open>getValidToken\<close>, \<open>checkRouteAccess\<close> raises
  \<open>AccessDenied\<close> if and only if the path is protected and no valid token is available;
  in every other case it returns true.
\<close>

theorem checkRouteAccess_denied_iff:
  assumes "\<not> unavailable GetValidToken w"
  shows "(fst (checkRouteAccess c p w) = Inl AccessDenied \<longleftrightarrow>
            routeTypeOf p = PROTECTED \<and> \<not> validTokenAvailable c w) \<and>
         (\<not> (routeTypeOf p = PROTECTED \<and> \<not> validTokenAvailable c w) \<longrightarrow>
            fst (checkRouteAccess c p w) = Inr True)"
  using assms
  by (auto simp: checkRouteAccess_def routeTypeOf_def validTokenAvailable_def store_defs Let_def
      split: option.splits prod.splits sum.splits if_splits)

theorem checkRouteAccess_denied_iff_witness:
  "\<not> unavailable GetValidToken emptyWorld \<and> routeTypeOf ''/dashboard'' = PROTECTED \<and>
   \<not> validTokenAvailable exampleJwt emptyWorld \<and>
   fst (checkRouteAccess exampleJwt ''/dashboard'' emptyWorld) = Inl AccessDenied \<and>
   \<not> unavailable GetValidToken resumableWorld \<and> validTokenAvailable exampleJwt resumableWorld \<and>
   fst (checkRouteAccess exampleJwt ''/dashboard'' resumableWorld) = Inr True \<and>
   fst (checkRouteAccess exampleJwt ''/auth'' emptyWorld) = Inr True"
  using checkRouteAccess_denied_iff[of emptyWorld exampleJwt "''/dashboard''"]
    checkRouteAccess_denied_iff[of resumableWorld exampleJwt "''/dashboard''"]
    checkRouteAccess_denied_iff[of emptyWorld exampleJwt "''/auth''"]
  by (simp add: guard_defs validTokenAvailable_def session_defs store_defs example_defs)

end
